theory Spec2Isabelle
  imports Complex_Main
begin

section \<open>Specific surface from grain-size statistics\<close>

text \<open>
  A shallow embedding of the notebook \<^verbatim>\<open>estimate_specific_surface_from_gs_stats.ipynb\<close>:
  the functions \<^verbatim>\<open>calculate_specific_surface_discrete\<close> and
  \<^verbatim>\<open>generate_gs_distributions\<close> and the loop over the rows of the data frame.

  Numbers. A finite float is a \<open>real\<close>: rounding and overflow are not modelled. A float
  that is not finite (\<^verbatim>\<open>nan\<close>, or the \<^verbatim>\<open>inf\<close> or \<^verbatim>\<open>nan\<close> that numpy gives for a division by
  zero) is \<open>None\<close>; every operation below keeps such a value not finite, as numpy does.
  A numpy array is a list.
\<close>

type_synonym npfloat = "real option"

datatype error = ZeroDivisionError | ValueError | TypeError

text \<open>
  A value read from a cell of the data frame: a float (\<open>Float None\<close> is the \<^verbatim>\<open>nan\<close> of a
  missing entry) or, in a column of dtype object, a Python string.
\<close>

datatype pyobj = Float npfloat | Str string

subsection \<open>Float arithmetic\<close>

fun fsub :: "npfloat \<Rightarrow> npfloat \<Rightarrow> npfloat" where
  "fsub (Some a) (Some b) = Some (a - b)"
| "fsub _ _ = None"

fun fadd :: "npfloat \<Rightarrow> npfloat \<Rightarrow> npfloat" where
  "fadd (Some a) (Some b) = Some (a + b)"
| "fadd _ _ = None"

text \<open>Division by a finite float: a zero divisor gives \<^verbatim>\<open>inf\<close> or \<^verbatim>\<open>nan\<close>, with a warning only.\<close>

fun ftruediv :: "npfloat \<Rightarrow> real \<Rightarrow> npfloat" where
  "ftruediv (Some a) b = (if b = 0 then None else Some (a / b))"
| "ftruediv None b = None"

text \<open>Product with a finite, nonzero float.\<close>

fun fmul :: "real \<Rightarrow> npfloat \<Rightarrow> npfloat" where
  "fmul c (Some a) = Some (c * a)"
| "fmul c None = None"

subsection \<open>The numpy and scipy operations the notebook calls\<close>

text \<open>
  \<^verbatim>\<open>np.arange(start, stop, step)\<close>: \<open>\<lceil>(stop - start) / step\<rceil>\<close> values \<open>start + i * step\<close>.
\<close>

definition arange :: "real \<Rightarrow> real \<Rightarrow> real \<Rightarrow> real list" where
  "arange start stop step =
     map (\<lambda>i. start + real i * step) [0..<nat \<lceil>(stop - start) / step\<rceil>]"

text \<open>
  \<^verbatim>\<open>a / b\<close> on one-dimensional arrays: elementwise on equal lengths, an array of
  length one is broadcast, any other pair of shapes raises \<^verbatim>\<open>ValueError\<close>.
\<close>

definition np_truediv :: "npfloat list \<Rightarrow> real list \<Rightarrow> error + npfloat list" where
  "np_truediv a b =
     (if length a = length b then Inr (map2 ftruediv a b)
      else if length a = 1 then Inr (map (ftruediv (hd a)) b)
      else if length b = 1 then Inr (map (\<lambda>x. ftruediv x (hd b)) a)
      else Inl ValueError)"

text \<open>\<^verbatim>\<open>a.sum()\<close>; the sum of an empty array is \<open>0.0\<close>.\<close>

definition np_sum :: "npfloat list \<Rightarrow> npfloat" where
  "np_sum a = foldr fadd a (Some 0)"

text \<open>
  The normal distribution function of the library, \<^verbatim>\<open>scipy.stats.norm.cdf\<close>. The standard
  normal distribution function is given by its power series about zero,
  \<open>1/2 + (1 / sqrt (2 pi)) * (\<Sum>k. (-1)^k z^(2k+1) / (2^k k! (2k+1)))\<close>,
  written with the coefficient of \<open>z^n\<close> for every \<open>n\<close>.
\<close>

definition phi_coeff :: "nat \<Rightarrow> real" where
  "phi_coeff n =
     (if even n then 0
      else (- 1) ^ ((n - 1) div 2) / (2 ^ ((n - 1) div 2) * fact ((n - 1) div 2) * real n))"

definition std_norm_cdf :: "real \<Rightarrow> real" where
  "std_norm_cdf z = 1 / 2 + (\<Sum>n. phi_coeff n * z ^ n) / sqrt (2 * pi)"

text \<open>
  \<^verbatim>\<open>norm.cdf(x, loc, scale)\<close> at one point: \<^verbatim>\<open>nan\<close> when an argument is \<^verbatim>\<open>nan\<close> or the scale
  is not positive.
\<close>

definition norm_cdf1 :: "real \<Rightarrow> npfloat \<Rightarrow> npfloat \<Rightarrow> npfloat" where
  "norm_cdf1 x loc scale =
     (case (loc, scale) of
        (Some m, Some s) \<Rightarrow> if 0 < s then Some (std_norm_cdf ((x - m) / s)) else None
      | _ \<Rightarrow> None)"

text \<open>On an array; a string for \<^verbatim>\<open>loc\<close> or \<^verbatim>\<open>scale\<close> raises \<^verbatim>\<open>TypeError\<close> in \<^verbatim>\<open>(x - loc) / scale\<close>.\<close>

definition norm_cdf :: "real list \<Rightarrow> pyobj \<Rightarrow> pyobj \<Rightarrow> error + npfloat list" where
  "norm_cdf x loc scale =
     (case (loc, scale) of
        (Float m, Float s) \<Rightarrow> Inr (map (\<lambda>xi. norm_cdf1 xi m s) x)
      | _ \<Rightarrow> Inl TypeError)"

subsection \<open>The functions of the notebook\<close>

text \<open>
  \<^verbatim>\<open>ss = 6.0 / rho_s * (freq / grain_size).sum()\<close>. The quotient \<^verbatim>\<open>6.0 / rho_s\<close> of two
  Python floats is evaluated first and raises \<^verbatim>\<open>ZeroDivisionError\<close> for a zero density.
\<close>

definition calculate_specific_surface_discrete ::
    "real list \<Rightarrow> npfloat list \<Rightarrow> real \<Rightarrow> error + npfloat" where
  "calculate_specific_surface_discrete grain_size freq rho_s =
     (if rho_s = 0 then Inl ZeroDivisionError
      else case np_truediv freq grain_size of
             Inl e \<Rightarrow> Inl e
           | Inr q \<Rightarrow> Inr (fmul (6 / rho_s) (np_sum q)))"

text \<open>
  \<^verbatim>\<open>generate_gs_distributions(gs_mean, gs_std, rho_s, clay_cutoff, log_transform)\<close>, step
  by step as the function is commented.

  \<^verbatim>\<open># grain size bins\<close>: \<^verbatim>\<open>gs_sim\<close> is \<^verbatim>\<open>np.arange(-7.0, -1, 0.01)\<close> when \<^verbatim>\<open>log_transform is True\<close>
  and \<^verbatim>\<open>10**np.arange(-7.0, -1, 0.01)\<close> otherwise.
\<close>

definition gs_sim :: "bool \<Rightarrow> real list" where
  "gs_sim log_transform =
     (if log_transform then arange (- 7) (- 1) 0.01
      else map (\<lambda>x. 10 powr x) (arange (- 7) (- 1) 0.01))"

text \<open>
  \<^verbatim>\<open># convert to frequency for each bin\<close>:
  \<^verbatim>\<open>freq_gs = cdf_gs.copy(); freq_gs[1:] = (cdf_gs[1:] - cdf_gs[:-1])\<close>.
  An assignment to the slice \<^verbatim>\<open>a[1:]\<close> keeps \<^verbatim>\<open>a[0]\<close>.
\<close>

definition convert_to_frequency :: "npfloat list \<Rightarrow> npfloat list" where
  "convert_to_frequency cdf_gs = take 1 cdf_gs @ map2 fsub (drop 1 cdf_gs) (butlast cdf_gs)"

text \<open>
  \<^verbatim>\<open># convert grainsize to real units\<close>: \<^verbatim>\<open>(10**gs_sim).copy()\<close> when
  \<^verbatim>\<open>log_transform is True\<close>, and \<^verbatim>\<open>gs_sim\<close> itself otherwise.
\<close>

definition convert_to_real_units :: "bool \<Rightarrow> real list \<Rightarrow> real list" where
  "convert_to_real_units log_transform gs =
     (if log_transform then map (\<lambda>x. 10 powr x) gs else gs)"

text \<open>
  \<^verbatim>\<open># take middle of bin\<close>: \<^verbatim>\<open>bins_gs[1:] = (bins_gs[1:] + bins_gs[:-1]) / 2.0\<close>. The
  right-hand side is a new array, computed from the old values before anything is stored.
\<close>

definition take_middle_of_bin :: "real list \<Rightarrow> real list" where
  "take_middle_of_bin bins_gs =
     take 1 bins_gs @ map2 (\<lambda>a b. (a + b) / 2) (drop 1 bins_gs) (butlast bins_gs)"

text \<open>\<^verbatim>\<open># remove clay fraction\<close>: \<^verbatim>\<open>freq_gs[bins_gs < 2e-6] = 0\<close>, with the literal \<^verbatim>\<open>2e-6\<close>.\<close>

definition remove_clay_fraction :: "real list \<Rightarrow> npfloat list \<Rightarrow> npfloat list" where
  "remove_clay_fraction bins_gs freq_gs =
     map2 (\<lambda>b f. if b < 2 / 10 ^ 6 then Some 0 else f) bins_gs freq_gs"

text \<open>
  The function: the distribution function on \<^verbatim>\<open>gs_sim\<close> (where a string argument
  raises), then the four steps; \<^verbatim>\<open>return bins_gs, freq_gs\<close>. The arguments \<^verbatim>\<open>rho_s\<close> and
  \<^verbatim>\<open>clay_cutoff\<close> are not read.
\<close>

definition generate_gs_distributions ::
    "pyobj \<Rightarrow> pyobj \<Rightarrow> real \<Rightarrow> real \<Rightarrow> bool \<Rightarrow> error + (real list \<times> npfloat list)" where
  "generate_gs_distributions gs_mean gs_std rho_s clay_cutoff log_transform =
     (case norm_cdf (gs_sim log_transform) gs_mean gs_std of
        Inl e \<Rightarrow> Inl e
      | Inr cdf_gs \<Rightarrow>
          let freq_gs = convert_to_frequency cdf_gs;
              bins_gs = convert_to_real_units log_transform (gs_sim log_transform);
              bins_gs = take_middle_of_bin bins_gs;
              freq_gs = remove_clay_fraction bins_gs freq_gs
          in Inr (bins_gs, freq_gs))"

subsection \<open>The loop over the rows\<close>

text \<open>
  The global variables of the notebook, the two cells of a row the loop reads, and what
  the loop writes: the list \<^verbatim>\<open>gs_freq_all\<close> and the new column of the data frame, by index.
\<close>

record config =
  rho_s :: real
  clay_cutoff :: real
  log_transform :: bool

record row =
  grain_size_mean :: pyobj
  grain_size_stdev :: pyobj

record state =
  gs_freq_all :: "npfloat list list"
  specific_surface_granular_fraction :: "nat \<rightharpoonup> npfloat"

definition init_state :: state where
  "init_state = \<lparr>gs_freq_all = [], specific_surface_granular_fraction = Map.empty\<rparr>"

text \<open>
  The body of the loop has no \<^verbatim>\<open>try\<close>: an exception ends the loop, and the state is what
  had been written until then.
\<close>

fun run_rows :: "config \<Rightarrow> (nat \<times> row) list \<Rightarrow> state \<Rightarrow> error option \<times> state" where
  "run_rows cfg [] st = (None, st)"
| "run_rows cfg ((ix, r) # rest) st =
     (case generate_gs_distributions (grain_size_mean r) (grain_size_stdev r)
             (rho_s cfg) (clay_cutoff cfg) (log_transform cfg) of
        Inl e \<Rightarrow> (Some e, st)
      | Inr (bins_gs, freq_gs) \<Rightarrow>
          let st = st\<lparr>gs_freq_all := gs_freq_all st @ [freq_gs]\<rparr>
          in case calculate_specific_surface_discrete bins_gs freq_gs (rho_s cfg) of
               Inl e \<Rightarrow> (Some e, st)
             | Inr ss \<Rightarrow>
                 run_rows cfg rest
                   (st\<lparr>specific_surface_granular_fraction :=
                         (specific_surface_granular_fraction st)(ix \<mapsto> ss)\<rparr>))"

text \<open>The loop on a data frame with the index \<open>0, 1, \<dots>\<close> that \<^verbatim>\<open>read_csv\<close> gives.\<close>

definition run :: "config \<Rightarrow> row list \<Rightarrow> error option \<times> state" where
  "run cfg df = run_rows cfg (zip [0..<length df] df) init_state"

text \<open>One pass of the body: the specific surface of one sample.\<close>

definition specific_surface :: "config \<Rightarrow> pyobj \<Rightarrow> pyobj \<Rightarrow> error + npfloat" where
  "specific_surface cfg gs_mean gs_std =
     (case generate_gs_distributions gs_mean gs_std
             (rho_s cfg) (clay_cutoff cfg) (log_transform cfg) of
        Inl e \<Rightarrow> Inl e
      | Inr (bins_gs, freq_gs) \<Rightarrow>
          calculate_specific_surface_discrete bins_gs freq_gs (rho_s cfg))"

subsection \<open>Closed forms used to state the results\<close>

text \<open>
  The \<open>i\<close>-th value of \<^verbatim>\<open>np.arange(-7.0, -1, 0.01)\<close>, the \<open>i\<close>-th value of \<^verbatim>\<open>gs_sim\<close>
  (the point where the distribution function is evaluated), the size reported for bin
  \<open>i\<close>, the difference of the distribution function at bin \<open>i\<close>, and the mass reported
  for bin \<open>i\<close>.
\<close>

definition grid_point :: "nat \<Rightarrow> real" where
  "grid_point i = - 7 + real i * 0.01"

definition gs_point :: "bool \<Rightarrow> nat \<Rightarrow> real" where
  "gs_point lt i = (if lt then grid_point i else 10 powr grid_point i)"

definition bin_mid :: "nat \<Rightarrow> real" where
  "bin_mid i = (if i = 0 then 10 powr grid_point 0
                else (10 powr grid_point i + 10 powr grid_point (i - 1)) / 2)"

definition bin_diff :: "bool \<Rightarrow> npfloat \<Rightarrow> npfloat \<Rightarrow> nat \<Rightarrow> npfloat" where
  "bin_diff lt m s i =
     (if i = 0 then norm_cdf1 (gs_point lt 0) m s
      else fsub (norm_cdf1 (gs_point lt i) m s) (norm_cdf1 (gs_point lt (i - 1)) m s))"

definition bin_freq :: "bool \<Rightarrow> npfloat \<Rightarrow> npfloat \<Rightarrow> nat \<Rightarrow> npfloat" where
  "bin_freq lt m s i = (if bin_mid i < 2 / 10 ^ 6 then Some 0 else bin_diff lt m s i)"

text \<open>
  The formula of the specification for the surface integrator,
  \<open>6 / solidDensity * \<Sum>(massFractions[i] / sizes[i])\<close>, summed by index in float
  arithmetic.
\<close>

primrec fsum_upto :: "nat \<Rightarrow> (nat \<Rightarrow> npfloat) \<Rightarrow> npfloat" where
  "fsum_upto 0 f = Some 0"
| "fsum_upto (Suc n) f = fadd (fsum_upto n f) (f n)"

definition spec_specificSurface :: "real list \<Rightarrow> npfloat list \<Rightarrow> real \<Rightarrow> npfloat" where
  "spec_specificSurface sizes massFractions solidDensity =
     fmul (6 / solidDensity)
       (fsum_upto (length sizes) (\<lambda>i. ftruediv (massFractions ! i) (sizes ! i)))"

text \<open>
  For a finite mean and a positive finite deviation every mass is finite: \<open>bin_mass\<close> is
  its value, and \<open>surface_sum\<close> is the sum the integrator forms of the masses and sizes
  the discretizer returns.
\<close>

definition bin_mass :: "bool \<Rightarrow> real \<Rightarrow> real \<Rightarrow> nat \<Rightarrow> real" where
  "bin_mass lt m s i =
     (if bin_mid i < 2 / 10 ^ 6 then 0
      else if i = 0 then std_norm_cdf ((gs_point lt 0 - m) / s)
      else std_norm_cdf ((gs_point lt i - m) / s) - std_norm_cdf ((gs_point lt (i - 1) - m) / s))"

definition surface_sum :: "bool \<Rightarrow> real \<Rightarrow> real \<Rightarrow> real" where
  "surface_sum lt m s = (\<Sum>i<600. bin_mass lt m s i / bin_mid i)"

section \<open>The normal distribution function\<close>

text \<open>
  The series converges everywhere and may be differentiated term by term: the derivative
  of \<open>std_norm_cdf\<close> is the normal density, and \<open>std_norm_cdf 0 = 1/2\<close>.
\<close>

lemma exp_sums_real: "(\<lambda>k. (x::real) ^ k / fact k) sums exp x"
proof -
  have "(\<lambda>k. x ^ k /\<^sub>R fact k) = (\<lambda>k. x ^ k / fact k)"
    by (rule ext) (simp add: divide_inverse mult.commute)
  with exp_converges [of x] show ?thesis by simp
qed

lemma diffs_phi_coeff:
  "diffs phi_coeff n = (if even n then (- 1) ^ (n div 2) / (2 ^ (n div 2) * fact (n div 2)) else 0)"
  by (simp add: diffs_def phi_coeff_def del: of_nat_Suc)

lemma diffs_phi_sums: "(\<lambda>n. diffs phi_coeff n * (y::real) ^ n) sums exp (- (y\<^sup>2) / 2)"
proof -
  have "(\<lambda>n. if even n then (- (y\<^sup>2) / 2) ^ (n div 2) / fact (n div 2) else 0)
          sums (0 + exp (- (y\<^sup>2) / 2))"
    by (rule sums_if [OF sums_zero exp_sums_real])
  moreover have "(\<lambda>n. if even n then (- (y\<^sup>2) / 2) ^ (n div 2) / fact (n div 2) else 0)
      = (\<lambda>n. diffs phi_coeff n * y ^ n)"
  proof
    fix n :: nat
    show "(if even n then (- (y\<^sup>2) / 2) ^ (n div 2) / fact (n div 2) else 0)
            = diffs phi_coeff n * y ^ n"
    proof (cases "even n")
      case True
      then obtain k where k: "n = 2 * k" by (auto elim: evenE)
      have "(- (y\<^sup>2) / 2) ^ k = (- (y\<^sup>2 / 2)) ^ k" by simp
      also have "\<dots> = (- 1) ^ k * (y\<^sup>2 / 2) ^ k" by (rule power_minus)
      also have "\<dots> = (- 1) ^ k * y ^ (2 * k) / 2 ^ k" by (simp add: power_divide power_mult)
      finally have "(- (y\<^sup>2) / 2) ^ k = (- 1) ^ k * y ^ (2 * k) / 2 ^ k" .
      with k show ?thesis by (simp add: diffs_phi_coeff)
    next
      case False
      then show ?thesis by (simp add: diffs_phi_coeff)
    qed
  qed
  ultimately show ?thesis by simp
qed

lemma phi_series_summable: "summable (\<lambda>n. phi_coeff n * y ^ n)"
proof (rule summable_comparison_test')
  have "(\<lambda>k. \<bar>y\<bar> * ((y\<^sup>2 / 2) ^ k / fact k)) sums (\<bar>y\<bar> * exp (y\<^sup>2 / 2))"
    by (rule sums_mult [OF exp_sums_real])
  from sums_if' [OF this]
  show "summable (\<lambda>n. if even n then 0
                       else \<bar>y\<bar> * ((y\<^sup>2 / 2) ^ ((n - 1) div 2) / fact ((n - 1) div 2)))"
    by (rule sums_summable)
next
  fix n :: nat
  assume "0 \<le> n"
  show "norm (phi_coeff n * y ^ n)
          \<le> (if even n then 0
              else \<bar>y\<bar> * ((y\<^sup>2 / 2) ^ ((n - 1) div 2) / fact ((n - 1) div 2)))"
  proof (cases "even n")
    case True
    then show ?thesis by (simp add: phi_coeff_def)
  next
    case False
    then obtain k where k: "n = 2 * k + 1" by (auto elim: oddE)
    have pc: "phi_coeff n = (- 1) ^ k / (2 ^ k * fact k * real (2 * k + 1))"
      using k by (simp add: phi_coeff_def)
    have "\<bar>y ^ n\<bar> = \<bar>y\<bar> * (y\<^sup>2) ^ k"
      using k by (simp add: power_mult power_abs [symmetric] abs_mult power2_eq_square [symmetric])
    then have "norm (phi_coeff n * y ^ n)
                 = \<bar>y\<bar> * (y\<^sup>2) ^ k / (2 ^ k * fact k * real (2 * k + 1))"
      by (simp add: pc abs_mult power_abs)
    also have "\<dots> = \<bar>y\<bar> * (y\<^sup>2 / 2) ^ k / fact k / real (2 * k + 1)"
      by (simp add: power_divide)
    also have "\<dots> \<le> \<bar>y\<bar> * (y\<^sup>2 / 2) ^ k / fact k / 1"
      by (intro divide_left_mono) (auto intro!: divide_nonneg_pos mult_nonneg_nonneg)
    finally show ?thesis using k by simp
  qed
qed

lemma DERIV_std_norm_cdf:
  "DERIV std_norm_cdf z :> exp (- (z\<^sup>2) / 2) / sqrt (2 * pi)"
proof -
  have "DERIV (\<lambda>x. \<Sum>n. phi_coeff n * x ^ n) z :> (\<Sum>n. diffs phi_coeff n * z ^ n)"
    by (rule termdiffs_strong_converges_everywhere) (rule phi_series_summable)
  also have "(\<Sum>n. diffs phi_coeff n * z ^ n) = exp (- (z\<^sup>2) / 2)"
    using diffs_phi_sums by (rule sums_unique [symmetric])
  finally have "DERIV (\<lambda>x. \<Sum>n. phi_coeff n * x ^ n) z :> exp (- (z\<^sup>2) / 2)" .
  then have "DERIV (\<lambda>x. 1 / 2 + (\<Sum>n. phi_coeff n * x ^ n) / sqrt (2 * pi)) z
      :> 0 + exp (- (z\<^sup>2) / 2) / sqrt (2 * pi)"
    by (intro DERIV_add DERIV_const DERIV_cdivide)
  then show ?thesis
    by (simp add: std_norm_cdf_def [abs_def])
qed


lemma std_norm_cdf_strict_mono:
  assumes "a < b" shows "std_norm_cdf a < std_norm_cdf b"
proof (rule DERIV_pos_imp_increasing [OF assms])
  fix x
  have "0 < exp (- (x\<^sup>2) / 2) / sqrt (2 * pi)" by simp
  with DERIV_std_norm_cdf [of x]
  show "\<exists>y. DERIV std_norm_cdf x :> y \<and> 0 < y" by blast
qed

section \<open>What the discretizer returns\<close>

lemma arange_grid: "arange (- 7) (- 1) 0.01 = map (\<lambda>i. - 7 + real i * 0.01) [0..<600]"
proof -
  have "\<lceil>(- 1 - (- 7)) / (0.01::real)\<rceil> = 600" by simp
  then show ?thesis by (simp add: arange_def)
qed

lemma slice_assign_length:
  "length (take 1 xs @ map2 f (drop 1 xs) (butlast xs)) = length xs"
  by (cases xs) simp_all

lemma slice_assign_nth:
  assumes "i < length xs"
  shows "(take 1 xs @ map2 f (drop 1 xs) (butlast xs)) ! i
           = (if i = 0 then xs ! 0 else f (xs ! i) (xs ! (i - 1)))"
proof (cases i)
  case 0
  with assms show ?thesis by (cases xs) simp_all
next
  case (Suc j)
  with assms obtain x xs' where xs: "xs = x # xs'" and j: "j < length xs'"
    by (cases xs) auto
  have "(take 1 xs @ map2 f (drop 1 xs) (butlast xs)) ! i = map2 f xs' (butlast (x # xs')) ! j"
    using Suc xs by simp
  also have "\<dots> = f (xs' ! j) (butlast (x # xs') ! j)"
    using j by (simp del: butlast.simps)
  also have "butlast (x # xs') ! j = (x # xs') ! j"
    using j by (simp add: nth_butlast del: butlast.simps)
  finally show ?thesis using Suc xs j by simp
qed

lemma gs_sim_eq: "gs_sim lt = map (gs_point lt) [0..<600]"
  unfolding gs_sim_def arange_grid by (simp add: gs_point_def grid_point_def)

lemma real_units_eq:
  "convert_to_real_units lt (gs_sim lt) = map (\<lambda>i. 10 powr grid_point i) [0..<600]"
  by (simp add: convert_to_real_units_def gs_sim_eq gs_point_def)

lemma convert_to_frequency_length: "length (convert_to_frequency cdf_gs) = length cdf_gs"
  unfolding convert_to_frequency_def by (rule slice_assign_length)

lemma convert_to_frequency_nth:
  "i < length cdf_gs \<Longrightarrow>
     convert_to_frequency cdf_gs ! i
       = (if i = 0 then cdf_gs ! 0 else fsub (cdf_gs ! i) (cdf_gs ! (i - 1)))"
  unfolding convert_to_frequency_def by (rule slice_assign_nth)

lemma take_middle_of_bin_length: "length (take_middle_of_bin bins_gs) = length bins_gs"
  unfolding take_middle_of_bin_def by (rule slice_assign_length)

lemma take_middle_of_bin_nth:
  "i < length bins_gs \<Longrightarrow>
     take_middle_of_bin bins_gs ! i
       = (if i = 0 then bins_gs ! 0 else (bins_gs ! i + bins_gs ! (i - 1)) / 2)"
  unfolding take_middle_of_bin_def by (rule slice_assign_nth)

lemma bins_eq:
  "take_middle_of_bin (map (\<lambda>i. 10 powr grid_point i) [0..<600]) = map bin_mid [0..<600]"
  by (rule nth_equalityI)
     (simp_all add: take_middle_of_bin_length take_middle_of_bin_nth bin_mid_def del: upt_Suc)

lemma freq_raw_eq:
  "convert_to_frequency (map (\<lambda>xi. norm_cdf1 xi m s) (map (gs_point lt) [0..<600]))
     = map (bin_diff lt m s) [0..<600]"
  by (rule nth_equalityI)
     (simp_all add: convert_to_frequency_length convert_to_frequency_nth bin_diff_def
        del: upt_Suc)

lemma mask_eq:
  "remove_clay_fraction (map bin_mid [0..<600]) (map (bin_diff lt m s) [0..<600])
     = map (bin_freq lt m s) [0..<600]"
  unfolding remove_clay_fraction_def
  by (rule nth_equalityI) (simp_all add: bin_freq_def)

lemma norm_cdf_Float:
  "norm_cdf x (Float m) (Float s) = Inr (map (\<lambda>xi. norm_cdf1 xi m s) x)"
  by (simp add: norm_cdf_def)

lemma generate_Float:
  "generate_gs_distributions (Float m) (Float s) r c lt
     = Inr (map bin_mid [0..<600], map (bin_freq lt m s) [0..<600])"
  unfolding generate_gs_distributions_def Let_def norm_cdf_Float gs_sim_eq [of lt, symmetric]
    real_units_eq
  unfolding gs_sim_eq
  by (simp only: sum.case bins_eq freq_raw_eq mask_eq)

lemma generate_Str:
  "generate_gs_distributions (Str a) s r c lt = Inl TypeError"
  "generate_gs_distributions m (Str b) r c lt = Inl TypeError"
  unfolding generate_gs_distributions_def norm_cdf_def
  by (simp_all split: pyobj.splits)

lemma generate_cases:
  assumes "generate_gs_distributions gs_mean gs_std r c lt = Inr (bins, freq)"
  obtains m s where "gs_mean = Float m" "gs_std = Float s"
    "bins = map bin_mid [0..<600]" "freq = map (bin_freq lt m s) [0..<600]"
proof (cases gs_mean)
  case (Str a)
  with assms show ?thesis by (simp add: generate_Str)
next
  case m: (Float m)
  show ?thesis
  proof (cases gs_std)
    case (Str b)
    with assms show ?thesis by (simp add: generate_Str)
  next
    case (Float s)
    with m assms that show ?thesis by (simp add: generate_Float)
  qed
qed

section \<open>Sizes of the bins\<close>

text \<open>
  The hundredth power of a grid value \<open>10 powr (- 7 + k / 100)\<close> is a power of ten, which
  turns a comparison of a grid value with a rational number into one of numerals.
\<close>

lemma grid_pow100:
  assumes "k + d = 700"
  shows "(10 powr grid_point k) ^ 100 = 1 / 10 ^ d"
proof -
  have "(10 powr grid_point k) ^ 100 = (10 powr grid_point k) powr (real 100)"
    by (subst powr_realpow) simp_all
  also have "\<dots> = 10 powr (grid_point k * 100)"
    by (simp add: powr_powr)
  also have "grid_point k * 100 = real k - 700"
    by (simp add: grid_point_def)
  also have "real k - 700 = - real d"
    using assms by linarith
  also have "10 powr (- real d) = 1 / 10 powr real d" by (rule powr_minus_divide)
  also have "10 powr real d = 10 ^ d" by (rule powr_realpow) simp
  finally show ?thesis .
qed

lemma grid_ge:
  assumes "0 \<le> a" "k + d = 700" "a ^ 100 * 10 ^ d \<le> 1"
  shows "a \<le> 10 powr grid_point k"
proof (rule power_le_imp_le_base [where n = 99])
  have "a ^ 100 \<le> 1 / 10 ^ d"
    using assms(3) by (simp add: field_simps)
  then show "a ^ Suc 99 \<le> (10 powr grid_point k) ^ Suc 99"
    by (simp add: grid_pow100 [OF assms(2)])
  show "0 \<le> 10 powr grid_point k" by simp
qed

lemma grid_less:
  assumes "0 \<le> a" "k + d = 700" "1 < a ^ 100 * 10 ^ d"
  shows "10 powr grid_point k < a"
proof (rule power_less_imp_less_base [where n = 100])
  have "1 / 10 ^ d < a ^ 100"
    using assms(3) by (simp add: field_simps)
  then show "(10 powr grid_point k) ^ 100 < a ^ 100"
    by (simp add: grid_pow100 [OF assms(2)])
  show "0 \<le> a" by fact
qed

lemma x149_ge: "2 / 10 ^ 6 \<le> 10 powr grid_point 149"
  by (rule grid_ge [where d = 551]) (simp_all add: power_divide)

lemma x150_less: "10 powr grid_point 150 < 4 / 10 ^ 6"
  by (rule grid_less [where d = 550]) (simp_all add: power_divide)

lemma x199_ge: "2 / 10 ^ 6 \<le> 10 powr grid_point 199"
  by (rule grid_ge [where d = 501]) (simp_all add: power_divide)

lemma x200: "10 powr grid_point 200 = 1 / 10 ^ 5"
  by (simp add: grid_point_def powr_minus_divide)

lemma grid_mono: "i < j \<Longrightarrow> 10 powr grid_point i < 10 powr grid_point j"
  by (simp add: grid_point_def)

lemma grid_step: "10 powr grid_point (Suc i) \<le> 1.03 * 10 powr grid_point i"
proof -
  have "(10::real) powr 0.01 \<le> 1.03"
  proof (rule power_le_imp_le_base [where n = 99])
    have "((10::real) powr 0.01) ^ Suc 99 = (10 powr 0.01) powr (real 100)"
      by (subst powr_realpow) simp_all
    also have "\<dots> = 10" by (simp add: powr_powr)
    also have "\<dots> \<le> (1.03::real) ^ Suc 99" by (simp add: power_divide)
    finally show "((10::real) powr 0.01) ^ Suc 99 \<le> 1.03 ^ Suc 99" .
  qed simp
  moreover have "grid_point (Suc i) = 0.01 + grid_point i"
    by (simp add: grid_point_def field_simps)
  then have "10 powr grid_point (Suc i) = 10 powr 0.01 * 10 powr grid_point i"
    by (simp only: powr_add)
  ultimately show ?thesis by simp
qed

lemma bin_mid_0: "bin_mid 0 = 1 / 10 ^ 7"
  by (simp add: bin_mid_def grid_point_def powr_minus_divide)

lemma bin_mid_pos: "0 < bin_mid i"
  by (simp add: bin_mid_def add_pos_pos)

lemma bin_mid_ge_left: "0 < i \<Longrightarrow> 10 powr grid_point (i - 1) \<le> bin_mid i"
  using grid_mono [of "i - 1" i] by (simp add: bin_mid_def)

lemma bin_mid_le_right: "bin_mid i \<le> 10 powr grid_point i"
  using grid_mono [of "i - 1" i] by (cases "i = 0") (simp_all add: bin_mid_def)

lemma bin_mid_150: "2 / 10 ^ 6 \<le> bin_mid 150" "bin_mid 150 < 4 / 10 ^ 6"
  using bin_mid_ge_left [of 150] bin_mid_le_right [of 150] x149_ge x150_less by simp_all

lemma bin_mid_200: "2 / 10 ^ 6 \<le> bin_mid 200" "bin_mid 200 \<le> 1 / 10 ^ 5"
  using bin_mid_ge_left [of 200] bin_mid_le_right [of 200] x199_ge x200 by simp_all

lemma gs_point_mono: "i < j \<Longrightarrow> gs_point lt i < gs_point lt j"
  using grid_mono [of i j] by (simp add: gs_point_def grid_point_def)

section \<open>Sums and quotients of floats\<close>

lemma np_sum_Nil: "np_sum [] = Some 0"
  by (simp add: np_sum_def)

lemma np_sum_Cons: "np_sum (x # xs) = fadd x (np_sum xs)"
  by (simp add: np_sum_def)

lemma np_sum_Some: "np_sum (map Some xs) = Some (sum_list xs)"
  by (induction xs) (simp_all add: np_sum_Nil np_sum_Cons)

lemma fadd_assoc: "fadd (fadd a b) c = fadd a (fadd b c)"
  by (cases a; cases b; cases c) simp_all

lemma fadd_0: "fadd (Some 0) a = a" "fadd a (Some 0) = a"
  by (cases a; simp)+

lemma np_sum_append: "np_sum (xs @ ys) = fadd (np_sum xs) (np_sum ys)"
  by (induction xs) (simp_all add: np_sum_Nil np_sum_Cons fadd_0 fadd_assoc)

lemma np_sum_fsum_upto: "np_sum (map f [0..<n]) = fsum_upto n f"
  by (induction n) (simp_all add: np_sum_Nil np_sum_Cons np_sum_append fadd_0)

lemma np_sum_None: "None \<in> set xs \<Longrightarrow> np_sum xs = None"
proof (induction xs)
  case Nil
  then show ?case by simp
next
  case (Cons x xs)
  then show ?case
    by (cases x; cases "np_sum xs") (auto simp: np_sum_Cons)
qed

lemma map2_nth_upt:
  "length xs = length ys \<Longrightarrow> map2 f xs ys = map (\<lambda>i. f (xs ! i) (ys ! i)) [0..<length ys]"
  by (rule nth_equalityI) simp_all

lemma calculate_eq_len:
  assumes "length freq = length grain_size" "rho \<noteq> 0"
  shows "calculate_specific_surface_discrete grain_size freq rho
           = Inr (fmul (6 / rho) (np_sum (map2 ftruediv freq grain_size)))"
  using assms by (simp add: calculate_specific_surface_discrete_def np_truediv_def)

lemma fmul_fmul: "fmul a (fmul b x) = fmul (a * b) x"
  by (cases x) simp_all

section \<open>Masses and the specific surface of one sample\<close>

lemma bin_freq_valid:
  "0 < s \<Longrightarrow> bin_freq lt (Some m) (Some s) i = Some (bin_mass lt m s i)"
  by (simp add: bin_freq_def bin_diff_def bin_mass_def norm_cdf1_def)

lemma norm_cdf1_invalid:
  "\<not> (\<exists>m' s'. m = Some m' \<and> s = Some s' \<and> 0 < s') \<Longrightarrow> norm_cdf1 x m s = None"
  by (cases m; cases s) (auto simp: norm_cdf1_def)

lemma bin_freq_invalid:
  assumes "\<not> (\<exists>m' s'. m = Some m' \<and> s = Some s' \<and> 0 < s')" "\<not> bin_mid i < 2 / 10 ^ 6"
  shows "bin_freq lt m s i = None"
  using assms(2) by (simp add: bin_freq_def bin_diff_def norm_cdf1_invalid [OF assms(1)])

lemma cdf_step_pos:
  assumes "0 < s" "0 < i"
  shows "std_norm_cdf ((gs_point lt (i - 1) - m) / s) < std_norm_cdf ((gs_point lt i - m) / s)"
proof (rule std_norm_cdf_strict_mono)
  from assms(2) have "gs_point lt (i - 1) < gs_point lt i" by (intro gs_point_mono) simp
  with assms(1) show "(gs_point lt (i - 1) - m) / s < (gs_point lt i - m) / s"
    by (simp add: divide_strict_right_mono)
qed

lemma bin_mass_nonneg: "0 < s \<Longrightarrow> 0 \<le> bin_mass lt m s i"
  using cdf_step_pos [of s i lt m] bin_mid_0
  by (cases "i = 0") (simp_all add: bin_mass_def)

lemma bin_mass_pos: "0 < s \<Longrightarrow> 0 < i \<Longrightarrow> 2 / 10 ^ 6 \<le> bin_mid i \<Longrightarrow> 0 < bin_mass lt m s i"
  using cdf_step_pos [of s i lt m] by (simp add: bin_mass_def)

lemma quotients_valid:
  assumes "0 < s"
  shows "map2 ftruediv (map (bin_freq lt (Some m) (Some s)) [0..<600]) (map bin_mid [0..<600])
           = map Some (map (\<lambda>i. bin_mass lt m s i / bin_mid i) [0..<600])"
proof (rule nth_equalityI)
  show "length (map2 ftruediv (map (bin_freq lt (Some m) (Some s)) [0..<600]) (map bin_mid [0..<600]))
          = length (map Some (map (\<lambda>i. bin_mass lt m s i / bin_mid i) [0..<600]))"
    by simp
next
  fix i
  assume "i < length (map2 ftruediv (map (bin_freq lt (Some m) (Some s)) [0..<600]) (map bin_mid [0..<600]))"
  then have i: "i < 600" by simp
  have "bin_mid i \<noteq> 0" using bin_mid_pos [of i] by simp
  with i show "map2 ftruediv (map (bin_freq lt (Some m) (Some s)) [0..<600]) (map bin_mid [0..<600]) ! i
         = map Some (map (\<lambda>i. bin_mass lt m s i / bin_mid i) [0..<600]) ! i"
    by (simp add: bin_freq_valid [OF assms])
qed

lemma specific_surface_valid:
  assumes "rho_s cfg \<noteq> 0" "0 < s"
  shows "specific_surface cfg (Float (Some m)) (Float (Some s))
           = Inr (Some (6 / rho_s cfg * surface_sum (log_transform cfg) m s))"
proof -
  have "np_sum (map2 ftruediv (map (bin_freq (log_transform cfg) (Some m) (Some s)) [0..<600])
                  (map bin_mid [0..<600]))
          = Some (surface_sum (log_transform cfg) m s)"
    by (simp only: quotients_valid [OF assms(2)] np_sum_Some interv_sum_list_conv_sum_set_nat
          surface_sum_def) (simp add: atLeast0LessThan)
  then show ?thesis
    using assms(1)
    by (simp add: specific_surface_def generate_Float calculate_specific_surface_discrete_def
          np_truediv_def)
qed

lemma specific_surface_invalid:
  assumes "rho_s cfg \<noteq> 0" "\<not> (\<exists>m' s'. m = Some m' \<and> s = Some s' \<and> 0 < s')"
  shows "specific_surface cfg (Float m) (Float s) = Inr None"
proof -
  let ?q = "map2 ftruediv (map (bin_freq (log_transform cfg) m s) [0..<600]) (map bin_mid [0..<600])"
  have "?q ! 150 = None"
    using bin_mid_150(1) by (simp add: bin_freq_invalid [OF assms(2)])
  moreover have "150 < length ?q" by simp
  ultimately have "None \<in> set ?q" by (metis nth_mem)
  then have "np_sum ?q = None" by (rule np_sum_None)
  then show ?thesis
    using assms(1)
    by (simp add: specific_surface_def generate_Float calculate_specific_surface_discrete_def
          np_truediv_def)
qed

lemma surface_sum_pos:
  assumes "0 < s"
  shows "0 < surface_sum lt m s"
  unfolding surface_sum_def
proof (rule sum_pos2 [where i = 150])
  show "0 < bin_mass lt m s 150 / bin_mid 150"
    using bin_mass_pos [OF assms _ bin_mid_150(1), of lt m] bin_mid_pos [of 150] by simp
next
  fix i
  show "0 \<le> bin_mass lt m s i / bin_mid i"
    using bin_mass_nonneg [OF assms, of lt m i] bin_mid_pos [of i] by simp
qed simp_all

lemma specific_surface_Float:
  assumes "rho_s cfg \<noteq> 0"
  shows "\<exists>ss. specific_surface cfg (Float m) (Float s) = Inr ss
           \<and> ((ss = None) = (\<not> (\<exists>m' s'. m = Some m' \<and> s = Some s' \<and> 0 < s')))"
proof (cases "\<exists>m' s'. m = Some m' \<and> s = Some s' \<and> 0 < s'")
  case True
  then obtain m' s' where "m = Some m'" "s = Some s'" "0 < s'" by blast
  with specific_surface_valid [OF assms, of s' m'] True show ?thesis by simp
next
  case False
  with specific_surface_invalid [OF assms False] show ?thesis by simp
qed

section \<open>Bounds on the two transform modes\<close>

text \<open>
  The density is at most \<open>1\<close> everywhere and at least \<open>1/6\<close> on \<open>[-1, 1]\<close>, which bounds
  the differences of the distribution function from above and from below.
\<close>

lemma density_le_1: "exp (- (x\<^sup>2) / 2) / sqrt (2 * pi) \<le> 1"
proof -
  have "exp (- (x\<^sup>2) / 2) \<le> 1" by simp
  moreover have "1 \<le> sqrt (2 * pi)"
    using pi_ge_two by (simp add: real_le_rsqrt)
  ultimately have "exp (- (x\<^sup>2) / 2) / sqrt (2 * pi) \<le> 1 / 1"
    by (intro frac_le) simp_all
  then show ?thesis by simp
qed

lemma density_ge_sixth:
  assumes "\<bar>x\<bar> \<le> 1"
  shows "1 / 6 \<le> exp (- (x\<^sup>2) / 2) / sqrt (2 * pi)"
proof -
  from assms have "x\<^sup>2 \<le> 1" by (simp add: abs_square_le_1)
  have "1 + (- (x\<^sup>2) / 2) \<le> exp (- (x\<^sup>2) / 2)" by (rule exp_ge_add_one_self)
  with \<open>x\<^sup>2 \<le> 1\<close> have e: "1 / 2 \<le> exp (- (x\<^sup>2) / 2)" by simp
  have "sqrt (2 * pi) \<le> sqrt 9"
    using pi_less_4 by (intro real_sqrt_le_mono) simp
  then have s: "sqrt (2 * pi) \<le> 3" by simp
  have "(1 / 2) / 3 \<le> exp (- (x\<^sup>2) / 2) / sqrt (2 * pi)"
    using e s by (intro frac_le) simp_all
  then show ?thesis by simp
qed

lemma cdf_lipschitz:
  assumes "a \<le> b"
  shows "std_norm_cdf b - std_norm_cdf a \<le> b - a"
proof -
  have "a - std_norm_cdf a \<le> b - std_norm_cdf b"
  proof (rule DERIV_nonneg_imp_nondecreasing [OF assms])
    fix x
    have "DERIV (\<lambda>x. x - std_norm_cdf x) x :> 1 - exp (- (x\<^sup>2) / 2) / sqrt (2 * pi)"
      by (intro DERIV_diff DERIV_ident DERIV_std_norm_cdf)
    moreover have "0 \<le> 1 - exp (- (x\<^sup>2) / 2) / sqrt (2 * pi)"
      using density_le_1 [of x] by simp
    ultimately show "\<exists>y. DERIV (\<lambda>x. x - std_norm_cdf x) x :> y \<and> 0 \<le> y" by blast
  qed
  then show ?thesis by simp
qed

lemma cdf_growth:
  assumes "a \<le> b" "- 1 \<le> a" "b \<le> 1"
  shows "(b - a) / 6 \<le> std_norm_cdf b - std_norm_cdf a"
proof -
  have "std_norm_cdf a - a / 6 \<le> std_norm_cdf b - b / 6"
  proof (rule DERIV_nonneg_imp_nondecreasing [OF assms(1)])
    fix x assume "a \<le> x" "x \<le> b"
    with assms have "\<bar>x\<bar> \<le> 1" by simp
    have "DERIV (\<lambda>x. std_norm_cdf x - x / 6) x :> exp (- (x\<^sup>2) / 2) / sqrt (2 * pi) - 1 / 6"
      by (intro DERIV_diff DERIV_cdivide DERIV_ident DERIV_std_norm_cdf)
    moreover have "0 \<le> exp (- (x\<^sup>2) / 2) / sqrt (2 * pi) - 1 / 6"
      using density_ge_sixth [OF \<open>\<bar>x\<bar> \<le> 1\<close>] by simp
    ultimately show "\<exists>y. DERIV (\<lambda>x. std_norm_cdf x - x / 6) x :> y \<and> 0 \<le> y" by blast
  qed
  then show ?thesis by (simp add: diff_divide_distrib)
qed

lemma linear_term_le:
  "bin_mass False (1 / 10 ^ 5) 10 i / bin_mid i \<le> 3 / 1000"
proof (cases "i = 0 \<or> bin_mid i < 2 / 10 ^ 6")
  case True
  then show ?thesis using bin_mid_0 by (auto simp: bin_mass_def)
next
  case False
  then obtain j where j: "i = Suc j" by (cases i) auto
  let ?a = "10 powr grid_point j" and ?b = "10 powr grid_point (Suc j)"
  have ab: "?a < ?b" by (rule grid_mono) simp
  have a: "0 < ?a" by simp
  have "bin_mass False (1 / 10 ^ 5) 10 i
          = std_norm_cdf ((?b - 1 / 10 ^ 5) / 10) - std_norm_cdf ((?a - 1 / 10 ^ 5) / 10)"
    using False j by (simp add: bin_mass_def gs_point_def)
  also have "\<dots> \<le> (?b - 1 / 10 ^ 5) / 10 - (?a - 1 / 10 ^ 5) / 10"
    using ab by (intro cdf_lipschitz) simp
  also have "\<dots> = (?b - ?a) / 10" by (simp add: field_simps)
  also have "\<dots> \<le> (1.03 * ?a - ?a) / 10"
    using grid_step [of j] by simp
  also have "\<dots> = 3 / 1000 * ?a" by simp
  finally have m: "bin_mass False (1 / 10 ^ 5) 10 i \<le> 3 / 1000 * ?a" .
  have mid: "?a \<le> bin_mid i" using bin_mid_ge_left [of i] j by simp
  have "bin_mass False (1 / 10 ^ 5) 10 i \<le> 3 / 1000 * bin_mid i"
    using m mid by simp
  then show ?thesis using bin_mid_pos [of i] by (simp add: pos_divide_le_eq)
qed

lemma linear_sum_le: "surface_sum False (1 / 10 ^ 5) 10 \<le> 9 / 5"
proof -
  have "surface_sum False (1 / 10 ^ 5) 10 \<le> real (card {..<600::nat}) * (3 / 1000)"
    unfolding surface_sum_def by (rule sum_bounded_above) (rule linear_term_le)
  then show ?thesis by simp
qed

lemma log_term_ge: "500 / 3 \<le> bin_mass True (- 5) 1 200 / bin_mid 200"
proof -
  have g200: "grid_point 200 = - 5" and g199: "grid_point 199 = - 5 - 1 / 100"
    by (simp_all add: grid_point_def)
  have "bin_mass True (- 5) 1 200 = std_norm_cdf 0 - std_norm_cdf (- (1 / 100))"
    using bin_mid_200(1) by (simp add: bin_mass_def gs_point_def g200 g199)
  moreover have "(0 - (- (1 / 100))) / 6 \<le> std_norm_cdf 0 - std_norm_cdf (- (1 / 100))"
    by (rule cdf_growth) simp_all
  ultimately have m: "1 / 600 \<le> bin_mass True (- 5) 1 200" by simp
  have "500 / 3 * bin_mid 200 \<le> 500 / 3 * (1 / 10 ^ 5)"
    using bin_mid_200(2) by (intro mult_left_mono) simp_all
  also have "\<dots> = 1 / 600" by simp
  finally have "500 / 3 * bin_mid 200 \<le> bin_mass True (- 5) 1 200" using m by simp
  then show ?thesis using bin_mid_pos [of 200] by (simp add: pos_le_divide_eq)
qed

lemma log_sum_ge: "500 / 3 \<le> surface_sum True (- 5) 1"
proof -
  have "bin_mass True (- 5) 1 200 / bin_mid 200 \<le> surface_sum True (- 5) 1"
    unfolding surface_sum_def
  proof (rule member_le_sum)
    fix i
    show "0 \<le> bin_mass True (- 5) 1 i / bin_mid i"
      using bin_mass_nonneg [of 1 True "- 5" i] bin_mid_pos [of i] by simp
  qed simp_all
  with log_term_ge show ?thesis by (rule order_trans)
qed

section \<open>The loop on rows of floats\<close>

lemma run_rows_Float:
  assumes "grain_size_mean r = Float m" "grain_size_stdev r = Float s"
    and "specific_surface cfg (Float m) (Float s) = Inr ss"
  shows "run_rows cfg ((ix, r) # rest) st
           = run_rows cfg rest
               (st\<lparr>gs_freq_all := gs_freq_all st @ [map (bin_freq (log_transform cfg) m s) [0..<600]],
                   specific_surface_granular_fraction :=
                     (specific_surface_granular_fraction st)(ix \<mapsto> ss)\<rparr>)"
  using assms by (simp add: specific_surface_def generate_Float del: upt_Suc)

lemma run_rows_numeric:
  assumes "rho_s cfg \<noteq> 0"
    and "\<forall>(ix, r)\<in>set irs. \<exists>m s. grain_size_mean r = Float m \<and> grain_size_stdev r = Float s"
    and "distinct (map fst irs)"
  shows "fst (run_rows cfg irs st) = None
         \<and> (\<forall>(ix, r)\<in>set irs. \<forall>ss.
               specific_surface cfg (grain_size_mean r) (grain_size_stdev r) = Inr ss \<longrightarrow>
               specific_surface_granular_fraction (snd (run_rows cfg irs st)) ix = Some ss)
         \<and> (\<forall>ix. ix \<notin> fst ` set irs \<longrightarrow>
               specific_surface_granular_fraction (snd (run_rows cfg irs st)) ix
                 = specific_surface_granular_fraction st ix)"
  using assms(2,3)
proof (induction irs arbitrary: st)
  case Nil
  then show ?case by simp
next
  case (Cons p irs)
  obtain ix r where p: "p = (ix, r)" by (cases p)
  from Cons.prems(1) p obtain m s where
    ms: "grain_size_mean r = Float m" "grain_size_stdev r = Float s" by auto
  from specific_surface_Float [OF assms(1), of m s] obtain ss where
    ss: "specific_surface cfg (Float m) (Float s) = Inr ss" by blast
  let ?st = "st\<lparr>gs_freq_all := gs_freq_all st @ [map (bin_freq (log_transform cfg) m s) [0..<600]],
                   specific_surface_granular_fraction :=
                     (specific_surface_granular_fraction st)(ix \<mapsto> ss)\<rparr>"
  have step: "run_rows cfg (p # irs) st = run_rows cfg irs ?st"
    unfolding p by (rule run_rows_Float [OF ms ss])
  from Cons.prems have prem: "\<forall>(ix, r)\<in>set irs. \<exists>m s. grain_size_mean r = Float m \<and> grain_size_stdev r = Float s"
    and dist: "distinct (map fst irs)" and fresh: "ix \<notin> fst ` set irs"
    using p by auto
  note IH = Cons.IH [OF prem dist, of ?st]
  show ?case
  proof (intro conjI ballI allI impI)
    show "fst (run_rows cfg (p # irs) st) = None"
      using IH step by simp
  next
    fix q ss'
    assume q: "q \<in> set (p # irs)"
    show "case q of (ix, r) \<Rightarrow> \<forall>ss. specific_surface cfg (grain_size_mean r) (grain_size_stdev r) = Inr ss \<longrightarrow>
               specific_surface_granular_fraction (snd (run_rows cfg (p # irs) st)) ix = Some ss"
    proof (cases "q \<in> set irs")
      case True
      with IH step show ?thesis by auto
    next
      case False
      with q have "q = (ix, r)" using p by simp
      moreover have "specific_surface_granular_fraction (snd (run_rows cfg irs ?st)) ix = Some ss"
        using IH fresh by simp
      ultimately show ?thesis using step ms ss by simp
    qed
  next
    fix jx
    assume "jx \<notin> fst ` set (p # irs)"
    then have "jx \<notin> fst ` set irs" "jx \<noteq> ix" using p by auto
    with IH step show "specific_surface_granular_fraction (snd (run_rows cfg (p # irs) st)) jx
                 = specific_surface_granular_fraction st jx"
      by simp
  qed
qed

section \<open>The claims\<close>

text \<open>
  Claim C1: for every valid mean and deviation and every cutoff above zero, the
  discretizer returns mass exactly \<open>0\<close> for every bin whose size is below the cutoff
  argument and leaves the other masses unchanged.

  The function compares the sizes with the literal \<^verbatim>\<open>2e-6\<close> and never reads
  \<^verbatim>\<open>clay_cutoff\<close>. With the values of the notebook (mean and deviation \<open>2e-6\<close>, density
  \<open>2650\<close>, cutoff \<open>4e-6\<close>, no log transform) bin \<open>150\<close> has a size below the cutoff and
  keeps a positive mass.
\<close>

theorem clay_cutoff_argument_not_applied:
  "\<exists>bins freq v.
     generate_gs_distributions (Float (Some (2 / 10 ^ 6))) (Float (Some (2 / 10 ^ 6)))
         2650 (4 / 10 ^ 6) False = Inr (bins, freq)
     \<and> bins ! 150 < 4 / 10 ^ 6 \<and> freq ! 150 = Some v \<and> 0 < v"
proof -
  have "0 < bin_mass False (2 / 10 ^ 6) (2 / 10 ^ 6) 150"
    by (rule bin_mass_pos [OF _ _ bin_mid_150(1)]) simp_all
  moreover have "bin_freq False (Some (2 / 10 ^ 6)) (Some (2 / 10 ^ 6)) 150
      = Some (bin_mass False (2 / 10 ^ 6) (2 / 10 ^ 6) 150)"
    by (rule bin_freq_valid) simp
  ultimately show ?thesis
    using bin_mid_150(2) by (simp add: generate_Float del: upt_Suc)
qed

text \<open>
  Claim C2: for every input, a cutoff above \<open>0.1\<close> metres makes the specific surface of
  the pipeline exactly \<open>0.0\<close>.

  The cutoff is not applied, so the bins from \<open>2e-6\<close> metres on keep their mass: with
  mean \<open>1e-4\<close>, deviation \<open>2e-6\<close>, density \<open>2650\<close> and cutoff \<open>1\<close> metre the result is a
  positive number.
\<close>

theorem cutoff_above_axis_gives_positive_surface:
  "\<exists>v. specific_surface \<lparr>rho_s = 2650, clay_cutoff = 1, log_transform = False\<rparr>
           (Float (Some (1 / 10 ^ 4))) (Float (Some (2 / 10 ^ 6))) = Inr (Some v)
       \<and> 0 < v"
proof -
  have "0 < surface_sum False (1 / 10 ^ 4) (2 / 10 ^ 6)"
    by (rule surface_sum_pos) simp
  then have "0 < 6 / 2650 * surface_sum False (1 / 10 ^ 4) (2 / 10 ^ 6)" by simp
  moreover have "specific_surface \<lparr>rho_s = 2650, clay_cutoff = 1, log_transform = False\<rparr>
           (Float (Some (1 / 10 ^ 4))) (Float (Some (2 / 10 ^ 6)))
         = Inr (Some (6 / 2650 * surface_sum False (1 / 10 ^ 4) (2 / 10 ^ 6)))"
    using specific_surface_valid
      [of "\<lparr>rho_s = 2650, clay_cutoff = 1, log_transform = False\<rparr>" "2 / 10 ^ 6" "1 / 10 ^ 4"]
    by simp
  ultimately show ?thesis by blast
qed

text \<open>
  Claim C3: for sizes that are positive at every bin of nonzero mass, mass fractions of
  the same length and a positive density, the surface integrator returns
  \<open>6 / solidDensity\<close> times the sum over \<open>i\<close> of \<open>massFractions[i] / sizes[i]\<close>.

  The result is the formula of the specification evaluated in float arithmetic; when all
  masses are finite and no size is zero it is the real number
  \<open>6 / solidDensity * (\<Sum>i. massFractions[i] / sizes[i])\<close>. (A bin of mass zero and size
  zero, which the hypothesis allows, contributes \<open>0.0 / 0.0\<close> on both sides.)
\<close>

theorem integrator_computes_formula:
  assumes "length massFractions = length sizes"
    and "0 < solidDensity"
    and "\<forall>i<length sizes. massFractions ! i \<noteq> Some 0 \<longrightarrow> 0 < sizes ! i"
  shows "calculate_specific_surface_discrete sizes massFractions solidDensity
           = Inr (spec_specificSurface sizes massFractions solidDensity)
         \<and> (\<forall>ms. massFractions = map Some ms \<and> (\<forall>i<length sizes. sizes ! i \<noteq> 0) \<longrightarrow>
               calculate_specific_surface_discrete sizes massFractions solidDensity
                 = Inr (Some (6 / solidDensity * (\<Sum>i<length sizes. ms ! i / sizes ! i))))"
proof (intro conjI allI impI)
  from assms(2) have rho: "solidDensity \<noteq> 0" by simp
  show "calculate_specific_surface_discrete sizes massFractions solidDensity
           = Inr (spec_specificSurface sizes massFractions solidDensity)"
    by (simp add: calculate_eq_len [OF assms(1) rho] map2_nth_upt [OF assms(1)]
          np_sum_fsum_upto spec_specificSurface_def)
next
  fix ms
  assume h: "massFractions = map Some ms \<and> (\<forall>i<length sizes. sizes ! i \<noteq> 0)"
  from assms(2) have rho: "solidDensity \<noteq> 0" by simp
  from h assms(1) have len: "length ms = length sizes" by simp
  have "map2 ftruediv massFractions sizes = map Some (map (\<lambda>i. ms ! i / sizes ! i) [0..<length sizes])"
  proof (rule nth_equalityI)
    show "length (map2 ftruediv massFractions sizes)
            = length (map Some (map (\<lambda>i. ms ! i / sizes ! i) [0..<length sizes]))"
      using assms(1) by simp
  next
    fix i assume "i < length (map2 ftruediv massFractions sizes)"
    then have "i < length sizes" using assms(1) by simp
    then show "map2 ftruediv massFractions sizes ! i
                 = map Some (map (\<lambda>i. ms ! i / sizes ! i) [0..<length sizes]) ! i"
      using h len by simp
  qed
  then have "np_sum (map2 ftruediv massFractions sizes)
               = Some (\<Sum>i<length sizes. ms ! i / sizes ! i)"
    by (simp only: np_sum_Some interv_sum_list_conv_sum_set_nat) (simp add: atLeast0LessThan)
  then show "calculate_specific_surface_discrete sizes massFractions solidDensity
                 = Inr (Some (6 / solidDensity * (\<Sum>i<length sizes. ms ! i / sizes ! i)))"
    by (simp add: calculate_eq_len [OF assms(1) rho])
qed

text \<open>Two bins of sizes \<open>1e-4\<close> and \<open>2e-4\<close> with masses \<open>1\<close> and \<open>0\<close>, density \<open>2650\<close>.\<close>

theorem integrator_computes_formula_witness:
  "calculate_specific_surface_discrete [1 / 10 ^ 4, 2 / 10 ^ 4] [Some 1, Some 0] 2650
     = Inr (Some (6 / 2650 * (1 / (1 / 10 ^ 4) + 0 / (2 / 10 ^ 4))))"
proof -
  have h1: "length [Some (1::real), Some 0] = length [1 / 10 ^ 4, 2 / 10 ^ 4 :: real]" by simp
  have h2: "0 < (2650::real)" by simp
  have h3: "\<forall>i<length [1 / 10 ^ 4, 2 / 10 ^ 4 :: real].
              [Some (1::real), Some 0] ! i \<noteq> Some 0 \<longrightarrow> 0 < [1 / 10 ^ 4, 2 / 10 ^ 4 :: real] ! i"
    by (simp add: nth_Cons')
  have h4: "[Some (1::real), Some 0] = map Some [1, 0] \<and>
            (\<forall>i<length [1 / 10 ^ 4, 2 / 10 ^ 4 :: real]. [1 / 10 ^ 4, 2 / 10 ^ 4 :: real] ! i \<noteq> 0)"
    by (simp add: nth_Cons')
  from integrator_computes_formula [OF h1 h2 h3, THEN conjunct2, rule_format, of "[1, 0]", OF h4]
  have "calculate_specific_surface_discrete [1 / 10 ^ 4, 2 / 10 ^ 4] [Some 1, Some 0] 2650
     = Inr (Some (6 / 2650 * (\<Sum>i<length [1 / 10 ^ 4, 2 / 10 ^ 4 :: real]. [1, 0] ! i / [1 / 10 ^ 4, 2 / 10 ^ 4] ! i)))" .
  then show ?thesis by (simp add: numeral_2_eq_2)
qed




text \<open>
  Claim C5: the sizes the discretizer reports are the raw grid value \<open>10 powr (- 7)\<close> for
  bin \<open>0\<close> and, for every bin \<open>i \<ge> 1\<close>, the arithmetic mean of the linear grid values
  \<open>i\<close> and \<open>i - 1\<close>; this holds whenever the function returns, in both transform modes.
\<close>

theorem bin_sizes_are_midpoints:
  assumes "generate_gs_distributions gs_mean gs_std rho c lt = Inr (bins, freq)"
  shows "length bins = 600 \<and> bins ! 0 = 10 powr (- 7) \<and>
         (\<forall>i. 1 \<le> i \<and> i < 600 \<longrightarrow>
            bins ! i = (10 powr (- 7 + real i * 0.01) + 10 powr (- 7 + real (i - 1) * 0.01)) / 2)"
  using assms by (elim generate_cases) (simp add: bin_mid_def grid_point_def)

text \<open>Mean \<open>1e-4\<close>, deviation \<open>2e-6\<close>, no log transform; bins \<open>0\<close> and \<open>1\<close>.\<close>

theorem bin_sizes_are_midpoints_witness:
  "generate_gs_distributions (Float (Some (1 / 10 ^ 4))) (Float (Some (2 / 10 ^ 6))) 2650 (4 / 10 ^ 6) False
     = Inr (map bin_mid [0..<600], map (bin_freq False (Some (1 / 10 ^ 4)) (Some (2 / 10 ^ 6))) [0..<600])
   \<and> length (map bin_mid [0..<600]) = 600
   \<and> map bin_mid [0..<600] ! 0 = 10 powr (- 7)
   \<and> map bin_mid [0..<600] ! 1 = (10 powr (- 7 + real 1 * 0.01) + 10 powr (- 7 + real (1 - 1) * 0.01)) / 2"
  using bin_sizes_are_midpoints [OF generate_Float [of "Some (1 / 10 ^ 4)" "Some (2 / 10 ^ 6)" 2650 "4 / 10 ^ 6" False]]
    generate_Float [of "Some (1 / 10 ^ 4)" "Some (2 / 10 ^ 6)" 2650 "4 / 10 ^ 6" False]
  by (simp del: upt_Suc)

text \<open>
  Claim C6: there is a mean and a deviation in \<open>log10\<close> metres for which the pipeline with
  the log transform and the pipeline without it, on \<open>10 powr mean\<close> and
  \<open>10 powr deviation\<close>, give different specific surfaces.

  Mean \<open>- 5\<close> and deviation \<open>1\<close>: with the log transform bin \<open>200\<close> alone contributes more
  than \<open>500 / 3\<close> to the sum, without it the whole sum is at most \<open>9 / 5\<close>.
\<close>

theorem transform_modes_differ:
  "\<exists>m s. 0 < s \<and>
     specific_surface \<lparr>rho_s = 2650, clay_cutoff = 2 / 10 ^ 6, log_transform = True\<rparr>
         (Float (Some m)) (Float (Some s))
       \<noteq> specific_surface \<lparr>rho_s = 2650, clay_cutoff = 2 / 10 ^ 6, log_transform = False\<rparr>
           (Float (Some (10 powr m))) (Float (Some (10 powr s)))"
proof -
  have p: "10 powr (- 5 :: real) = 1 / 10 ^ 5" "10 powr (1::real) = 10"
    by (simp_all add: powr_minus_divide)
  have "surface_sum False (1 / 10 ^ 5) 10 < surface_sum True (- 5) 1"
    using linear_sum_le log_sum_ge by simp
  then have "0 < (1::real) \<and>
     specific_surface \<lparr>rho_s = 2650, clay_cutoff = 2 / 10 ^ 6, log_transform = True\<rparr>
         (Float (Some (- 5))) (Float (Some 1))
       \<noteq> specific_surface \<lparr>rho_s = 2650, clay_cutoff = 2 / 10 ^ 6, log_transform = False\<rparr>
           (Float (Some (10 powr - 5))) (Float (Some (10 powr 1)))"
    by (simp add: p specific_surface_valid)
  then show ?thesis by blast
qed

text \<open>
  Claim C7: for positive sizes, a positive density and mass fractions (one for each size)
  that are all zero, the surface integrator returns exactly \<open>0.0\<close> and raises nothing.
\<close>

theorem zero_masses_give_zero_surface:
  assumes "length freq = length grain_size"
    and "\<forall>i<length grain_size. 0 < grain_size ! i"
    and "0 < rho"
    and "\<forall>i<length freq. freq ! i = Some 0"
  shows "calculate_specific_surface_discrete grain_size freq rho = Inr (Some 0)"
proof -
  from assms(3) have rho: "rho \<noteq> 0" by simp
  have "map2 ftruediv freq grain_size = map Some (map (\<lambda>i. 0) [0..<length grain_size])"
  proof (rule nth_equalityI)
    show "length (map2 ftruediv freq grain_size)
            = length (map Some (map (\<lambda>i. 0::real) [0..<length grain_size]))"
      using assms(1) by simp
  next
    fix i assume "i < length (map2 ftruediv freq grain_size)"
    then have i: "i < length grain_size" using assms(1) by simp
    with assms(2) have "grain_size ! i \<noteq> 0" by auto
    with i assms(1,4)
    show "map2 ftruediv freq grain_size ! i
                 = map Some (map (\<lambda>i. 0) [0..<length grain_size]) ! i"
      by simp
  qed
  then have "np_sum (map2 ftruediv freq grain_size) = Some 0"
    by (simp only: np_sum_Some) simp
  then show ?thesis by (simp add: calculate_eq_len [OF assms(1) rho])
qed

text \<open>Two bins of sizes \<open>1e-4\<close> and \<open>2e-4\<close>, density \<open>2650\<close>.\<close>

theorem zero_masses_give_zero_surface_witness:
  "calculate_specific_surface_discrete [1 / 10 ^ 4, 2 / 10 ^ 4] [Some 0, Some 0] 2650 = Inr (Some 0)"
proof -
  have h1: "length [Some (0::real), Some 0] = length [1 / 10 ^ 4, 2 / 10 ^ 4 :: real]" by simp
  have h2: "\<forall>i<length [1 / 10 ^ 4, 2 / 10 ^ 4 :: real]. 0 < [1 / 10 ^ 4, 2 / 10 ^ 4 :: real] ! i"
    by (simp add: nth_Cons')
  have h3: "0 < (2650::real)" by simp
  have h4: "\<forall>i<length [Some (0::real), Some 0]. [Some (0::real), Some 0] ! i = Some 0"
    by (simp add: nth_Cons')
  from zero_masses_give_zero_surface [OF h1 h2 h3 h4] show ?thesis .
qed

text \<open>
  Claim C8: for fixed sizes and mass fractions and a positive density, the surface
  integrator called with twice the density returns half of what it returns with the
  density: the same exception if it raises, half the number if it returns one, and a value
  that is not finite if it returns one.
\<close>

theorem doubling_density_halves_surface:
  assumes "0 < rho"
  shows "calculate_specific_surface_discrete grain_size freq (2 * rho)
           = (case calculate_specific_surface_discrete grain_size freq rho of
                Inl e \<Rightarrow> Inl e
              | Inr ss \<Rightarrow> Inr (fmul (1 / 2) ss))"
  using assms
  by (simp add: calculate_specific_surface_discrete_def fmul_fmul split: sum.splits)

text \<open>One bin of size \<open>1e-4\<close> and mass \<open>1\<close>, densities \<open>2650\<close> and \<open>5300\<close>.\<close>

theorem doubling_density_halves_surface_witness:
  "calculate_specific_surface_discrete [1 / 10 ^ 4] [Some 1] (2 * 2650) = Inr (Some (6 / 5300 * 10 ^ 4))
   \<and> calculate_specific_surface_discrete [1 / 10 ^ 4] [Some 1] 2650 = Inr (Some (6 / 2650 * 10 ^ 4))"
proof -
  have h: "0 < (2650::real)" by simp
  have v: "calculate_specific_surface_discrete [1 / 10 ^ 4] [Some 1] 2650 = Inr (Some (6 / 2650 * 10 ^ 4))"
    by (simp add: calculate_specific_surface_discrete_def np_truediv_def np_sum_def)
  from doubling_density_halves_surface [OF h, of "[1 / 10 ^ 4]" "[Some 1]"] v show ?thesis by simp
qed

text \<open>
  Claim C9, as stated, says that a failure on one row does not keep the other rows from
  being processed. The loop has no exception handler: a row whose mean is a string raises
  \<^verbatim>\<open>TypeError\<close> inside the discretizer, the loop ends there, and the valid row after it
  gets no value (nothing has been written at all).
\<close>

theorem raising_row_aborts_loop:
  "run \<lparr>rho_s = 2650, clay_cutoff = 4 / 10 ^ 6, log_transform = False\<rparr>
     [\<lparr>grain_size_mean = Str ''n.d.'', grain_size_stdev = Float (Some (2 / 10 ^ 6))\<rparr>,
      \<lparr>grain_size_mean = Float (Some (1 / 10 ^ 4)), grain_size_stdev = Float (Some (2 / 10 ^ 6))\<rparr>]
   = (Some TypeError, init_state)"
  by (simp add: run_def numeral_2_eq_2 generate_Str)

text \<open>
  Claim C9, amended: when the density is not zero and every mean and deviation is a float
  (\<^verbatim>\<open>nan\<close> for a missing entry included), the loop runs to the end and every row receives
  the specific surface computed from its own two cells; that value is \<^verbatim>\<open>nan\<close> exactly for
  the rows whose mean or deviation is \<^verbatim>\<open>nan\<close> or whose deviation is not positive.
\<close>

theorem float_rows_all_processed:
  assumes "rho_s cfg \<noteq> 0"
    and "\<forall>r\<in>set df. \<exists>m s. grain_size_mean r = Float m \<and> grain_size_stdev r = Float s"
  shows "fst (run cfg df) = None
         \<and> (\<forall>i<length df. \<exists>ss.
               specific_surface cfg (grain_size_mean (df ! i)) (grain_size_stdev (df ! i)) = Inr ss
               \<and> specific_surface_granular_fraction (snd (run cfg df)) i = Some ss
               \<and> ((ss = None) =
                    (\<not> (\<exists>m s. grain_size_mean (df ! i) = Float (Some m)
                            \<and> grain_size_stdev (df ! i) = Float (Some s) \<and> 0 < s))))"
proof -
  let ?irs = "zip [0..<length df] df"
  have num: "\<forall>(ix, r)\<in>set ?irs. \<exists>m s. grain_size_mean r = Float m \<and> grain_size_stdev r = Float s"
    using assms(2) by (auto dest: set_zip_rightD)
  have dist: "distinct (map fst ?irs)" by simp
  note R = run_rows_numeric [OF assms(1) num dist, of init_state, folded run_def]
  show ?thesis
  proof (intro conjI allI impI)
    show "fst (run cfg df) = None" using R by simp
  next
    fix i assume i: "i < length df"
    then have "?irs ! i = (i, df ! i)" "i < length ?irs" by simp_all
    then have mem: "(i, df ! i) \<in> set ?irs"
      by (metis nth_mem)
    from assms(2) i obtain m s where
      ms: "grain_size_mean (df ! i) = Float m" "grain_size_stdev (df ! i) = Float s"
      by (metis nth_mem)
    from specific_surface_Float [OF assms(1), of m s] obtain ss where
      ss: "specific_surface cfg (Float m) (Float s) = Inr ss"
        "(ss = None) = (\<not> (\<exists>m' s'. m = Some m' \<and> s = Some s' \<and> 0 < s'))"
      by blast
    have "specific_surface_granular_fraction (snd (run cfg df)) i = Some ss"
      using R mem ms ss(1) by auto
    with ms ss
    show "\<exists>ss. specific_surface cfg (grain_size_mean (df ! i)) (grain_size_stdev (df ! i)) = Inr ss
               \<and> specific_surface_granular_fraction (snd (run cfg df)) i = Some ss
               \<and> ((ss = None) =
                    (\<not> (\<exists>m s. grain_size_mean (df ! i) = Float (Some m)
                            \<and> grain_size_stdev (df ! i) = Float (Some s) \<and> 0 < s)))"
      by simp
  qed
qed

text \<open>A row with a missing mean followed by a valid row.\<close>

theorem float_rows_all_processed_witness:
  "fst (run \<lparr>rho_s = 2650, clay_cutoff = 4 / 10 ^ 6, log_transform = False\<rparr>
          [\<lparr>grain_size_mean = Float None, grain_size_stdev = Float (Some (2 / 10 ^ 6))\<rparr>,
           \<lparr>grain_size_mean = Float (Some (1 / 10 ^ 4)), grain_size_stdev = Float (Some (2 / 10 ^ 6))\<rparr>])
     = None
   \<and> specific_surface_granular_fraction
       (snd (run \<lparr>rho_s = 2650, clay_cutoff = 4 / 10 ^ 6, log_transform = False\<rparr>
          [\<lparr>grain_size_mean = Float None, grain_size_stdev = Float (Some (2 / 10 ^ 6))\<rparr>,
           \<lparr>grain_size_mean = Float (Some (1 / 10 ^ 4)), grain_size_stdev = Float (Some (2 / 10 ^ 6))\<rparr>]))
       0 = Some None
   \<and> (\<exists>v. specific_surface_granular_fraction
       (snd (run \<lparr>rho_s = 2650, clay_cutoff = 4 / 10 ^ 6, log_transform = False\<rparr>
          [\<lparr>grain_size_mean = Float None, grain_size_stdev = Float (Some (2 / 10 ^ 6))\<rparr>,
           \<lparr>grain_size_mean = Float (Some (1 / 10 ^ 4)), grain_size_stdev = Float (Some (2 / 10 ^ 6))\<rparr>]))
       1 = Some (Some v))"
proof -
  let ?cfg = "\<lparr>rho_s = 2650, clay_cutoff = 4 / 10 ^ 6, log_transform = False\<rparr>"
  let ?r0 = "\<lparr>grain_size_mean = Float None, grain_size_stdev = Float (Some (2 / 10 ^ 6))\<rparr>"
  let ?r1 = "\<lparr>grain_size_mean = Float (Some (1 / 10 ^ 4)), grain_size_stdev = Float (Some (2 / 10 ^ 6))\<rparr>"
  let ?col = "specific_surface_granular_fraction (snd (run ?cfg [?r0, ?r1]))"
  have h1: "rho_s ?cfg \<noteq> 0" by simp
  have h2: "\<forall>r\<in>set [?r0, ?r1]. \<exists>m s. grain_size_mean r = Float m \<and> grain_size_stdev r = Float s"
    by simp
  note T = float_rows_all_processed [OF h1 h2]
  from T have e: "fst (run ?cfg [?r0, ?r1]) = None" by (rule conjunct1)
  from T have a: "\<And>i. i < length [?r0, ?r1] \<Longrightarrow> \<exists>ss.
        specific_surface ?cfg (grain_size_mean ([?r0, ?r1] ! i)) (grain_size_stdev ([?r0, ?r1] ! i)) = Inr ss
        \<and> ?col i = Some ss
        \<and> ((ss = None) = (\<not> (\<exists>m s. grain_size_mean ([?r0, ?r1] ! i) = Float (Some m)
                            \<and> grain_size_stdev ([?r0, ?r1] ! i) = Float (Some s) \<and> 0 < s)))"
    by blast
  have l0: "0 < length [?r0, ?r1]" and l1: "1 < length [?r0, ?r1]" by simp_all
  have n0: "\<not> (\<exists>m s. grain_size_mean ([?r0, ?r1] ! 0) = Float (Some m)
                   \<and> grain_size_stdev ([?r0, ?r1] ! 0) = Float (Some s) \<and> 0 < s)"
    by simp
  have v1: "\<exists>m s. grain_size_mean ([?r0, ?r1] ! 1) = Float (Some m)
                   \<and> grain_size_stdev ([?r0, ?r1] ! 1) = Float (Some s) \<and> 0 < s"
    by (rule exI [of _ "1 / 10 ^ 4"], rule exI [of _ "2 / 10 ^ 6"]) simp
  from a [OF l0] n0 have c0: "?col 0 = Some None" by blast
  from a [OF l1] v1 obtain ss where "?col 1 = Some ss" "ss \<noteq> None" by blast
  then have c1: "\<exists>v. ?col 1 = Some (Some v)" by auto
  from e c0 c1 show ?thesis by blast
qed

text \<open>
  Claim C10: what the discretizer returns does not depend on its arguments \<^verbatim>\<open>rho_s\<close> and
  \<^verbatim>\<open>clay_cutoff\<close>; the threshold below which masses are set to zero is \<open>2e-6\<close> metres
  whatever the cutoff argument is: a bin whose size is below \<open>2e-6\<close> returns mass \<open>0\<close>, and
  every other bin returns its entry of the frequency array unchanged.
\<close>

theorem discretizer_ignores_rho_s_and_clay_cutoff:
  "generate_gs_distributions gs_mean gs_std rho1 cutoff1 lt
     = generate_gs_distributions gs_mean gs_std rho2 cutoff2 lt
   \<and> (\<forall>bins freq cdf_gs i.
         generate_gs_distributions gs_mean gs_std rho1 cutoff1 lt = Inr (bins, freq)
         \<longrightarrow> norm_cdf (gs_sim lt) gs_mean gs_std = Inr cdf_gs
         \<longrightarrow> i < length bins
         \<longrightarrow> freq ! i = (if bins ! i < 2 / 10 ^ 6 then Some 0
                        else convert_to_frequency cdf_gs ! i))"
proof (intro conjI allI impI)
  show "generate_gs_distributions gs_mean gs_std rho1 cutoff1 lt
     = generate_gs_distributions gs_mean gs_std rho2 cutoff2 lt"
    by (simp add: generate_gs_distributions_def)
next
  fix bins freq cdf_gs i
  assume g: "generate_gs_distributions gs_mean gs_std rho1 cutoff1 lt = Inr (bins, freq)"
    and c: "norm_cdf (gs_sim lt) gs_mean gs_std = Inr cdf_gs"
    and i: "i < length bins"
  from g obtain m s where ms: "gs_mean = Float m" "gs_std = Float s"
    by (rule generate_cases)
  from c ms have "cdf_gs = map (\<lambda>xi. norm_cdf1 xi m s) (gs_sim lt)"
    by (simp add: norm_cdf_Float)
  then have lf: "length (convert_to_frequency cdf_gs) = 600"
    by (simp add: convert_to_frequency_length gs_sim_eq)
  from g c have b: "bins = take_middle_of_bin (convert_to_real_units lt (gs_sim lt))"
    and f: "freq = remove_clay_fraction bins (convert_to_frequency cdf_gs)"
    by (auto simp: generate_gs_distributions_def Let_def)
  have lb: "length bins = 600"
    unfolding b by (simp add: take_middle_of_bin_length real_units_eq)
  from i lb lf show "freq ! i = (if bins ! i < 2 / 10 ^ 6 then Some 0
                        else convert_to_frequency cdf_gs ! i)"
    unfolding f remove_clay_fraction_def by simp
qed

text \<open>Mean \<open>1e-4\<close>, deviation \<open>2e-6\<close>; densities \<open>2650\<close> and \<open>1000\<close>, cutoffs \<open>4e-6\<close> and \<open>1\<close>; bins \<open>0\<close> and \<open>150\<close>.\<close>

theorem discretizer_ignores_rho_s_and_clay_cutoff_witness:
  "generate_gs_distributions (Float (Some (1 / 10 ^ 4))) (Float (Some (2 / 10 ^ 6))) 2650 (4 / 10 ^ 6) False
     = generate_gs_distributions (Float (Some (1 / 10 ^ 4))) (Float (Some (2 / 10 ^ 6))) 1000 1 False
   \<and> generate_gs_distributions (Float (Some (1 / 10 ^ 4))) (Float (Some (2 / 10 ^ 6))) 2650 (4 / 10 ^ 6) False
     = Inr (map bin_mid [0..<600], map (bin_freq False (Some (1 / 10 ^ 4)) (Some (2 / 10 ^ 6))) [0..<600])
   \<and> norm_cdf (gs_sim False) (Float (Some (1 / 10 ^ 4))) (Float (Some (2 / 10 ^ 6)))
     = Inr (map (\<lambda>xi. norm_cdf1 xi (Some (1 / 10 ^ 4)) (Some (2 / 10 ^ 6))) (gs_sim False))
   \<and> map bin_mid [0..<600] ! 0 < 2 / 10 ^ 6
   \<and> map (bin_freq False (Some (1 / 10 ^ 4)) (Some (2 / 10 ^ 6))) [0..<600] ! 0 = Some 0
   \<and> \<not> map bin_mid [0..<600] ! 150 < 2 / 10 ^ 6
   \<and> map (bin_freq False (Some (1 / 10 ^ 4)) (Some (2 / 10 ^ 6))) [0..<600] ! 150
       = convert_to_frequency
           (map (\<lambda>xi. norm_cdf1 xi (Some (1 / 10 ^ 4)) (Some (2 / 10 ^ 6))) (gs_sim False)) ! 150"
proof -
  let ?g = "generate_gs_distributions (Float (Some (1 / 10 ^ 4))) (Float (Some (2 / 10 ^ 6))) 2650 (4 / 10 ^ 6) False"
  let ?B = "map bin_mid [0..<600]"
  let ?F = "map (bin_freq False (Some (1 / 10 ^ 4)) (Some (2 / 10 ^ 6))) [0..<600]"
  let ?C = "map (\<lambda>xi. norm_cdf1 xi (Some (1 / 10 ^ 4)) (Some (2 / 10 ^ 6))) (gs_sim False)"
  have g: "?g = Inr (?B, ?F)" by (rule generate_Float)
  have c: "norm_cdf (gs_sim False) (Float (Some (1 / 10 ^ 4))) (Float (Some (2 / 10 ^ 6))) = Inr ?C"
    by (rule norm_cdf_Float)
  have l0: "0 < length ?B" and l150: "150 < length ?B" by simp_all
  have b0: "?B ! 0 < 2 / 10 ^ 6" using bin_mid_0 by simp
  have b150: "\<not> ?B ! 150 < 2 / 10 ^ 6" using bin_mid_150(1) by (simp del: upt_Suc)
  note T = discretizer_ignores_rho_s_and_clay_cutoff [of "Float (Some (1 / 10 ^ 4))" "Float (Some (2 / 10 ^ 6))" 2650 "4 / 10 ^ 6" False 1000 1]
  from T have e: "?g = generate_gs_distributions (Float (Some (1 / 10 ^ 4))) (Float (Some (2 / 10 ^ 6))) 1000 1 False"
    by (rule conjunct1)
  note R = T [THEN conjunct2, rule_format, OF g c]
  from R [OF l0] b0 have f0: "?F ! 0 = Some 0" by simp
  from R [OF l150] b150 have f150: "?F ! 150 = convert_to_frequency ?C ! 150" by simp
  from e g c b0 f0 b150 f150 show ?thesis by blast
qed

end
